theory Spec2Isabelle
  imports Main
begin

section \<open>The governance decision resolver\<close>

text \<open>
  A shallow embedding of \<^verbatim>\<open>decision_resolver.py\<close>, \<^verbatim>\<open>policy_engine.py\<close>,
  \<^verbatim>\<open>approval_engine.py\<close>, \<^verbatim>\<open>weaviate_client.py\<close> and \<^verbatim>\<open>nebulagraph_client.py\<close>.
  Python dictionaries with a fixed set of keys are records, a key that a dictionary may
  lack is an \<open>option\<close> field, an exception is the \<open>Inl\<close> side of a sum, and the
  module-level connection \<^verbatim>\<open>_client\<close> together with the Weaviate instance behind it is
  an explicit state that every function takes and returns.
\<close>

subsection \<open>Failures\<close>

text \<open>
  The source defines no exception class of its own and has no \<^verbatim>\<open>try\<close>: what can fail is
  a call into a collaborator. The three constructors name where the exception was raised;
  the text is its message.
\<close>

datatype error =
    WeaviateConnectionError string
  | WeaviateQueryError string
  | ProcessLegalityError string

subsection \<open>The objects of the two Weaviate collections\<close>

text \<open>
  The properties of an \<^verbatim>\<open>HRPolicy\<close> object that \<^verbatim>\<open>check_policy_constraints\<close> filters on
  or reads, and the properties of an \<^verbatim>\<open>ApprovalPolicy\<close> object as
  \<^verbatim>\<open>setup_approval_policy.py\<close> inserts them. Severities stay strings, as in the store.
\<close>

record hr_policy =
  hp_domain :: string
  hp_applies_to :: string
  hp_roles :: "string list"
  hp_severity :: string
  hp_policy_text :: string

record approval_policy =
  ap_domain :: string
  ap_workflow :: string
  ap_action :: string
  ap_requested_by_role :: string
  ap_approver_roles :: "string list"
  ap_approval_level :: int
  ap_auto_approve :: bool
  ap_escalation_role :: string
  ap_source :: string

subsection \<open>The dictionaries the functions return\<close>

record process_legality =
  valid :: bool
  approval_required :: bool
  reason :: string

record policy_constraints =
  severity :: string
  policies :: "string list"

text \<open>
  \<^verbatim>\<open>get_approval_requirement\<close> returns a dictionary with two keys when nothing matched
  and with five keys otherwise: the three keys of the second shape only are optional.
\<close>

record approval_requirement =
  approval_required :: bool
  approver_roles :: "string list option"
  approval_level :: "int option"
  auto_approve :: bool
  escalation_role :: "string option"

text \<open>
  The \<^verbatim>\<open>reason\<close> of a verdict is a string on two paths and the list of policy texts on
  the two others.
\<close>

datatype str_or_list = Str string | StrList "string list"

record governance_verdict =
  verdict :: string
  reason :: str_or_list
  approval :: "approval_requirement option"
  authority :: string

subsection \<open>The state: the Weaviate instance, the cached connection, the calls made\<close>

text \<open>
  \<open>connect_to_local\<close> is what \<^verbatim>\<open>weaviate.connect_to_local\<close> raises, if anything; a
  collection is either the list of its objects in the order the store returns them, or
  the exception a query on it raises. Nothing in the modelled code writes to a collection.
\<close>

record weaviate =
  connect_to_local :: "error option"
  HRPolicy :: "error + hr_policy list"
  ApprovalPolicy :: "error + approval_policy list"

text \<open>
  One entry per invocation of a collaborator, with its arguments. The list is not a
  variable of the source: it records, in order, which of the three functions were entered,
  so that a statement can say that a function was or was not called.
\<close>

datatype call =
    LegalityCall string string string
  | PolicyCall string string
  | ApprovalCall string string string string

record world =
  client :: bool
  store :: weaviate
  calls :: "call list"

definition record_call :: "call \<Rightarrow> world \<Rightarrow> world" where
  "record_call c w = w\<lparr>calls := calls w @ [c]\<rparr>"

subsection \<open>\<^verbatim>\<open>weaviate_client.py\<close>\<close>

text \<open>
  \<^verbatim>\<open>get_client\<close> connects on first use and keeps the connection in \<^verbatim>\<open>_client\<close>;
  \<open>client w\<close> says that \<^verbatim>\<open>_client\<close> is not \<^verbatim>\<open>None\<close>. When connecting raises, the
  assignment does not happen.
\<close>

definition get_client :: "world \<Rightarrow> (error + unit) \<times> world" where
  "get_client w =
     (if \<not> client w then
        (case connect_to_local (store w) of
           Some e \<Rightarrow> (Inl e, w)
         | None \<Rightarrow> (Inr (), w\<lparr>client := True\<rparr>))
      else (Inr (), w))"

definition close_client :: "world \<Rightarrow> world" where
  "close_client w = (if client w then w\<lparr>client := False\<rparr> else w)"

text \<open>
  What the next \<^verbatim>\<open>get_client()\<close> raises, if anything: nothing once a connection is
  cached, else whatever connecting raises.
\<close>

definition connection_failure :: "world \<Rightarrow> error option" where
  "connection_failure w = (if client w then None else connect_to_local (store w))"

subsection \<open>The Weaviate query\<close>

text \<open>
  \<^verbatim>\<open>collection.query.fetch_objects(filters=...)\<close> belongs to the Weaviate client library,
  not to this repository. It is modelled as returning the objects of the collection that
  satisfy the filter, in the collection's order, with \<^verbatim>\<open>equal\<close> read as equality of
  the property with the given text and \<^verbatim>\<open>contains_any\<close> as the property's list sharing
  an element with the given list; a query on an unreachable collection raises.
\<close>

definition contains_any :: "'a list \<Rightarrow> 'a list \<Rightarrow> bool" where
  "contains_any xs ys = (set xs \<inter> set ys \<noteq> {})"

definition fetch_objects :: "error + 'a list \<Rightarrow> ('a \<Rightarrow> bool) \<Rightarrow> error + 'a list" where
  "fetch_objects collection filters =
     (case collection of
        Inl e \<Rightarrow> Inl e
      | Inr objs \<Rightarrow> Inr (filter filters objs))"

subsection \<open>\<^verbatim>\<open>nebulagraph_client.py\<close>\<close>

text \<open>
  The function of the repository is a placeholder that accepts every transition. The
  resolver below takes the legality collaborator as a parameter, of this function's type
  extended by a failure, so that statements about an invalid or approval-requiring
  transition are about inputs that exist.
\<close>

definition check_process_legality :: "string \<Rightarrow> string \<Rightarrow> string \<Rightarrow> error + process_legality" where
  "check_process_legality current_state next_state role =
     Inr \<lparr>valid = True, process_legality.approval_required = False,
          process_legality.reason = ''Valid HR workflow transition''\<rparr>"

definition call_process_legality ::
  "(string \<Rightarrow> string \<Rightarrow> string \<Rightarrow> error + process_legality) \<Rightarrow>
   string \<Rightarrow> string \<Rightarrow> string \<Rightarrow> world \<Rightarrow> (error + process_legality) \<times> world" where
  "call_process_legality legality current_state next_state role w =
     (legality current_state next_state role,
      record_call (LegalityCall current_state next_state role) w)"

subsection \<open>\<^verbatim>\<open>policy_engine.py\<close>\<close>

definition hr_policy_filters :: "string \<Rightarrow> string \<Rightarrow> hr_policy \<Rightarrow> bool" where
  "hr_policy_filters workflow role obj =
     (hp_domain obj = ''HR''
      \<and> hp_applies_to obj = workflow
      \<and> contains_any (hp_roles obj) [role])"

text \<open>
  The loop over \<^verbatim>\<open>result.objects\<close>, with its two accumulators: the set
  \<^verbatim>\<open>severities\<close> and the list \<^verbatim>\<open>policies\<close> (here \<open>texts\<close>).
\<close>

fun collect :: "hr_policy list \<Rightarrow> string set \<times> string list \<Rightarrow> string set \<times> string list" where
  "collect [] (severities, texts) = (severities, texts)"
| "collect (obj # objs) (severities, texts) =
     collect objs (insert (hp_severity obj) severities, texts @ [hp_policy_text obj])"

text \<open>Lines 24 to 40: from \<^verbatim>\<open>result.objects\<close> to the returned dictionary.\<close>

definition reduce_objects :: "hr_policy list \<Rightarrow> policy_constraints" where
  "reduce_objects objects =
     (if objects = [] then \<lparr>severity = ''ALLOW'', policies = []\<rparr>
      else
        (case collect objects ({}, []) of
           (severities, texts) \<Rightarrow>
             if ''BLOCK'' \<in> severities then
               \<lparr>severity = ''BLOCK'', policies = texts\<rparr>
             else if ''REQUIRE_APPROVAL'' \<in> severities then
               \<lparr>severity = ''REQUIRE_APPROVAL'', policies = texts\<rparr>
             else \<lparr>severity = ''ALLOW'', policies = texts\<rparr>))"

definition check_policy_constraints ::
  "string \<Rightarrow> string \<Rightarrow> world \<Rightarrow> (error + policy_constraints) \<times> world" where
  "check_policy_constraints workflow role w =
     (case get_client (record_call (PolicyCall workflow role) w) of
        (Inl e, w1) \<Rightarrow> (Inl e, w1)
      | (Inr _, w1) \<Rightarrow>
          (case fetch_objects (HRPolicy (store w1)) (hr_policy_filters workflow role) of
             Inl e \<Rightarrow> (Inl e, w1)
           | Inr objects \<Rightarrow> (Inr (reduce_objects objects), w1)))"

subsection \<open>\<^verbatim>\<open>approval_engine.py\<close>\<close>

definition approval_policy_filters ::
  "string \<Rightarrow> string \<Rightarrow> string \<Rightarrow> string \<Rightarrow> approval_policy \<Rightarrow> bool" where
  "approval_policy_filters domain workflow action role obj =
     (ap_domain obj = domain
      \<and> ap_workflow obj = workflow
      \<and> ap_action obj = action
      \<and> ap_requested_by_role obj = role)"

definition get_approval_requirement ::
  "string \<Rightarrow> string \<Rightarrow> string \<Rightarrow> string \<Rightarrow> world \<Rightarrow> (error + approval_requirement) \<times> world" where
  "get_approval_requirement domain workflow action role w =
     (case get_client (record_call (ApprovalCall domain workflow action role) w) of
        (Inl e, w1) \<Rightarrow> (Inl e, w1)
      | (Inr _, w1) \<Rightarrow>
          (case fetch_objects (ApprovalPolicy (store w1))
                  (approval_policy_filters domain workflow action role) of
             Inl e \<Rightarrow> (Inl e, w1)
           | Inr [] \<Rightarrow>
               (Inr \<lparr>approval_required = False, approver_roles = None,
                     approval_level = None, auto_approve = True,
                     escalation_role = None\<rparr>, w1)
           | Inr (policy # _) \<Rightarrow>
               (Inr \<lparr>approval_required = True,
                     approver_roles = Some (ap_approver_roles policy),
                     approval_level = Some (ap_approval_level policy),
                     auto_approve = ap_auto_approve policy,
                     escalation_role = Some (ap_escalation_role policy)\<rparr>, w1)))"

subsection \<open>\<^verbatim>\<open>decision_resolver.py\<close>\<close>

definition governance_decision ::
  "(string \<Rightarrow> string \<Rightarrow> string \<Rightarrow> error + process_legality) \<Rightarrow>
   string \<Rightarrow> string \<Rightarrow> string \<Rightarrow> string \<Rightarrow> world \<Rightarrow> (error + governance_verdict) \<times> world" where
  "governance_decision legality current_state next_state role workflow w =
     (case call_process_legality legality current_state next_state role w of
        (Inl e, w1) \<Rightarrow> (Inl e, w1)
      | (Inr process, w1) \<Rightarrow>
          if \<not> valid process then
            (Inr \<lparr>verdict = ''BLOCKED'',
                  reason = Str (process_legality.reason process),
                  approval = None,
                  authority = ''NebulaGraph''\<rparr>, w1)
          else
            (case check_policy_constraints workflow role w1 of
               (Inl e, w2) \<Rightarrow> (Inl e, w2)
             | (Inr policy, w2) \<Rightarrow>
                 if severity policy = ''BLOCK'' then
                   (Inr \<lparr>verdict = ''BLOCKED'',
                         reason = StrList (policies policy),
                         approval = None,
                         authority = ''Weaviate''\<rparr>, w2)
                 else if severity policy = ''REQUIRE_APPROVAL''
                         \<or> process_legality.approval_required process then
                   (case get_approval_requirement ''HR'' workflow next_state role w2 of
                      (Inl e, w3) \<Rightarrow> (Inl e, w3)
                    | (Inr requirement, w3) \<Rightarrow>
                        (Inr \<lparr>verdict = ''NEEDS_APPROVAL'',
                              reason = StrList (policies policy),
                              approval = Some requirement,
                              authority = ''GovernanceLayer''\<rparr>, w3))
                 else
                   (Inr \<lparr>verdict = ''ALLOWED'',
                         reason = Str ''Process and policy compliant'',
                         approval = None,
                         authority = ''GovernanceLayer''\<rparr>, w2)))"

text \<open>Python's truth value of a \<^verbatim>\<open>reason\<close>: a string or a list is false exactly when empty.\<close>

fun nonempty :: "str_or_list \<Rightarrow> bool" where
  "nonempty (Str s) = (s \<noteq> [])"
| "nonempty (StrList l) = (l \<noteq> [])"

text \<open>
  The invariant the data model puts on the legality collaborator's result: an invalid
  result has a reason.
\<close>

definition process_legality_invariant :: "process_legality \<Rightarrow> bool" where
  "process_legality_invariant process =
     (valid process \<or> process_legality.reason process \<noteq> [])"

subsection \<open>\<^verbatim>\<open>setup_approval_policy.py\<close>\<close>

text \<open>The one approval rule the repository inserts into \<^verbatim>\<open>ApprovalPolicy\<close>.\<close>

definition hiring_approval_policy :: approval_policy where
  "hiring_approval_policy =
     \<lparr>ap_domain = ''HR'',
      ap_workflow = ''Hiring'',
      ap_action = ''OfferAccepted'',
      ap_requested_by_role = ''HR_EXECUTIVE'',
      ap_approver_roles = [''HR_MANAGER''],
      ap_approval_level = 1,
      ap_auto_approve = False,
      ap_escalation_role = ''HR_DIRECTOR'',
      ap_source = ''HR Approval SOP v1.0''\<rparr>"

subsection \<open>Example inputs\<close>

text \<open>
  The repository ships no \<^verbatim>\<open>HRPolicy\<close> objects. The four below are inputs for the
  worked examples: three scoped to the Hiring workflow, one of each severity, and one scoped
  to another workflow. \<open>example_world\<close> is a fresh process (no connection yet, no call
  made) in front of a reachable store that holds the given policies and the approval rule
  of \<^verbatim>\<open>setup_approval_policy.py\<close>.
\<close>

definition salary_band_policy :: hr_policy where
  "salary_band_policy =
     \<lparr>hp_domain = ''HR'', hp_applies_to = ''Hiring'',
      hp_roles = [''HR_EXECUTIVE'', ''HR_MANAGER''],
      hp_severity = ''ALLOW'', hp_policy_text = ''Offers follow the salary bands''\<rparr>"

definition offer_signoff_policy :: hr_policy where
  "offer_signoff_policy =
     \<lparr>hp_domain = ''HR'', hp_applies_to = ''Hiring'',
      hp_roles = [''HR_EXECUTIVE''],
      hp_severity = ''REQUIRE_APPROVAL'', hp_policy_text = ''Offers need a manager sign-off''\<rparr>"

definition hiring_freeze_policy :: hr_policy where
  "hiring_freeze_policy =
     \<lparr>hp_domain = ''HR'', hp_applies_to = ''Hiring'',
      hp_roles = [''HR_EXECUTIVE''],
      hp_severity = ''BLOCK'', hp_policy_text = ''Hiring freeze in force''\<rparr>"

definition laptop_policy :: hr_policy where
  "laptop_policy =
     \<lparr>hp_domain = ''HR'', hp_applies_to = ''Onboarding'',
      hp_roles = [''HR_EXECUTIVE''],
      hp_severity = ''BLOCK'', hp_policy_text = ''No laptop before the contract is signed''\<rparr>"

definition example_world :: "hr_policy list \<Rightarrow> world" where
  "example_world hr_policies =
     \<lparr>client = False,
      store = \<lparr>connect_to_local = None,
               HRPolicy = Inr hr_policies,
               ApprovalPolicy = Inr [hiring_approval_policy]\<rparr>,
      calls = []\<rparr>"

text \<open>A legality collaborator that answers the same for every transition.\<close>

definition constant_legality ::
  "process_legality \<Rightarrow> string \<Rightarrow> string \<Rightarrow> string \<Rightarrow> error + process_legality" where
  "constant_legality process current_state next_state role = Inr process"

section \<open>Properties\<close>

subsection \<open>What each function leaves of the state\<close>

lemma get_client_calls: "calls (snd (get_client w)) = calls w"
  by (simp add: get_client_def split: option.splits)

lemma get_client_store: "store (snd (get_client w)) = store w"
  by (simp add: get_client_def split: option.splits)

lemma check_policy_constraints_calls:
  "calls (snd (check_policy_constraints workflow role w)) = calls w @ [PolicyCall workflow role]"
  using get_client_calls [of "record_call (PolicyCall workflow role) w"]
  by (auto simp: check_policy_constraints_def record_call_def split: prod.splits sum.splits)

lemma get_approval_requirement_calls:
  "calls (snd (get_approval_requirement domain workflow action role w)) =
     calls w @ [ApprovalCall domain workflow action role]"
  using get_client_calls [of "record_call (ApprovalCall domain workflow action role) w"]
  by (auto simp: get_approval_requirement_def record_call_def
      split: prod.splits sum.splits list.splits)

lemma record_call_calls: "calls (record_call c w) = calls w @ [c]"
  by (simp add: record_call_def)

lemma check_policy_constraints_calls_eq:
  "check_policy_constraints workflow role w = (r, w') \<Longrightarrow>
     calls w' = calls w @ [PolicyCall workflow role]"
  using check_policy_constraints_calls [of workflow role w] by simp

lemma get_approval_requirement_calls_eq:
  "get_approval_requirement domain workflow action role w = (r, w') \<Longrightarrow>
     calls w' = calls w @ [ApprovalCall domain workflow action role]"
  using get_approval_requirement_calls [of domain workflow action role w] by simp

lemma get_client_connects:
  "client w \<or> connect_to_local (store w) = None \<Longrightarrow> fst (get_client w) = Inr ()"
  by (auto simp: get_client_def)

lemma record_call_client: "client (record_call c w) = client w"
  by (simp add: record_call_def)

lemma record_call_store: "store (record_call c w) = store w"
  by (simp add: record_call_def)

subsection \<open>Unfolding the examples\<close>

lemmas example_defs =
  example_world_def salary_band_policy_def offer_signoff_policy_def hiring_freeze_policy_def
  laptop_policy_def hiring_approval_policy_def constant_legality_def check_process_legality_def

lemmas run_defs =
  check_policy_constraints_def get_approval_requirement_def get_client_def record_call_def
  fetch_objects_def hr_policy_filters_def approval_policy_filters_def contains_any_def
  reduce_objects_def

subsection \<open>The reduction of the matched policies\<close>

lemma collect_eq:
  "collect objs (S, P) = (hp_severity ` set objs \<union> S, P @ map hp_policy_text objs)"
  by (induction objs arbitrary: S P) auto

lemma reduce_objects_eq:
  "reduce_objects objects =
     \<lparr>severity =
        (if ''BLOCK'' \<in> hp_severity ` set objects then ''BLOCK''
         else if ''REQUIRE_APPROVAL'' \<in> hp_severity ` set objects then ''REQUIRE_APPROVAL''
         else ''ALLOW''),
      policies = map hp_policy_text objects\<rparr>"
  by (cases objects) (simp_all add: reduce_objects_def collect_eq)

lemma find_filter_eq:
  "List.find P xs = (case filter P xs of [] \<Rightarrow> None | x # _ \<Rightarrow> Some x)"
  by (induction xs) simp_all

text \<open>
  The invariant of the data model on the evaluator's result, proved of the code: an empty
  list of policies comes with severity ALLOW.
\<close>

lemma check_policy_constraints_invariant:
  assumes "check_policy_constraints workflow role w = (Inr policy, w')"
    and "policies policy = []"
  shows "severity policy = ''ALLOW''"
proof -
  obtain objects where "policy = reduce_objects objects"
    using assms(1)
    by (auto simp: check_policy_constraints_def split: prod.splits sum.splits)
  then show ?thesis
    using assms(2) by (simp add: reduce_objects_eq)
qed

subsection \<open>The four outcomes of the resolver\<close>

text \<open>
  C1. When the legality collaborator returns a result with \<open>valid\<close> false, the verdict
  is BLOCKED, its reason is the collaborator's reason and its authority is the process
  authority, which the code writes \<^verbatim>\<open>"NebulaGraph"\<close>. The state afterwards is the state
  before with the legality call recorded and nothing else: the policy evaluator and the
  approval resolver were not entered, and no connection to the store was opened. The
  state \<open>w\<close> is arbitrary, so the verdict does not depend on what the two other
  collaborators would have done.
\<close>

theorem illegal_transition_blocked_by_process:
  assumes "legality current_state next_state role = Inr process"
    and "\<not> valid process"
  shows "governance_decision legality current_state next_state role workflow w =
           (Inr \<lparr>verdict = ''BLOCKED'',
                 reason = Str (process_legality.reason process),
                 approval = None,
                 authority = ''NebulaGraph''\<rparr>,
            w\<lparr>calls := calls w @ [LegalityCall current_state next_state role]\<rparr>)"
  using assms
  by (simp add: governance_decision_def call_process_legality_def record_call_def)

theorem illegal_transition_blocked_by_process_witness:
  "governance_decision
     (\<lambda>current_state next_state role.
        Inr \<lparr>valid = False, process_legality.approval_required = True,
             process_legality.reason = ''No such transition''\<rparr>)
     ''Rejected'' ''OfferAccepted'' ''HR_EXECUTIVE'' ''Hiring''
     \<lparr>client = False,
      store = \<lparr>connect_to_local = Some (WeaviateConnectionError ''refused''),
               HRPolicy = Inl (WeaviateQueryError ''down''),
               ApprovalPolicy = Inl (WeaviateQueryError ''down'')\<rparr>,
      calls = []\<rparr>
   = (Inr \<lparr>verdict = ''BLOCKED'', reason = Str ''No such transition'',
           approval = None, authority = ''NebulaGraph''\<rparr>,
      \<lparr>client = False,
       store = \<lparr>connect_to_local = Some (WeaviateConnectionError ''refused''),
                HRPolicy = Inl (WeaviateQueryError ''down''),
                ApprovalPolicy = Inl (WeaviateQueryError ''down'')\<rparr>,
       calls = [LegalityCall ''Rejected'' ''OfferAccepted'' ''HR_EXECUTIVE'']\<rparr>)"
  using illegal_transition_blocked_by_process
    [of "\<lambda>current_state next_state role.
           Inr \<lparr>valid = False, process_legality.approval_required = True,
                process_legality.reason = ''No such transition''\<rparr>"
        "''Rejected''" "''OfferAccepted''" "''HR_EXECUTIVE''"
        "\<lparr>valid = False, process_legality.approval_required = True,
          process_legality.reason = ''No such transition''\<rparr>"
        "''Hiring''"
        "\<lparr>client = False,
          store = \<lparr>connect_to_local = Some (WeaviateConnectionError ''refused''),
                   HRPolicy = Inl (WeaviateQueryError ''down''),
                   ApprovalPolicy = Inl (WeaviateQueryError ''down'')\<rparr>,
          calls = []\<rparr>"]
  by simp

text \<open>
  C2. When the legality result is valid and the policy evaluator returns severity BLOCK,
  the verdict is BLOCKED, its reason is the evaluator's whole list of policy texts and
  its authority is the policy authority, which the code writes \<^verbatim>\<open>"Weaviate"\<close>.
\<close>

theorem policy_block_blocked_by_policy:
  assumes "legality current_state next_state role = Inr process"
    and "valid process"
    and "check_policy_constraints workflow role
           (record_call (LegalityCall current_state next_state role) w) = (Inr policy, w2)"
    and "severity policy = ''BLOCK''"
  shows "governance_decision legality current_state next_state role workflow w =
           (Inr \<lparr>verdict = ''BLOCKED'',
                 reason = StrList (policies policy),
                 approval = None,
                 authority = ''Weaviate''\<rparr>, w2)"
  using assms by (simp add: governance_decision_def call_process_legality_def)

theorem policy_block_blocked_by_policy_witness:
  "governance_decision check_process_legality
     ''OfferMade'' ''OfferAccepted'' ''HR_EXECUTIVE'' ''Hiring''
     (example_world [salary_band_policy, laptop_policy, hiring_freeze_policy])
   = (Inr \<lparr>verdict = ''BLOCKED'',
           reason = StrList [''Offers follow the salary bands'', ''Hiring freeze in force''],
           approval = None, authority = ''Weaviate''\<rparr>,
      (example_world [salary_band_policy, laptop_policy, hiring_freeze_policy])
        \<lparr>client := True,
         calls := [LegalityCall ''OfferMade'' ''OfferAccepted'' ''HR_EXECUTIVE'',
                   PolicyCall ''Hiring'' ''HR_EXECUTIVE'']\<rparr>)"
proof -
  have legal: "check_process_legality ''OfferMade'' ''OfferAccepted'' ''HR_EXECUTIVE'' =
      Inr \<lparr>valid = True, process_legality.approval_required = False,
           process_legality.reason = ''Valid HR workflow transition''\<rparr>"
    by (simp add: check_process_legality_def)
  have pol: "check_policy_constraints ''Hiring'' ''HR_EXECUTIVE''
      (record_call (LegalityCall ''OfferMade'' ''OfferAccepted'' ''HR_EXECUTIVE'')
         (example_world [salary_band_policy, laptop_policy, hiring_freeze_policy])) =
      (Inr \<lparr>severity = ''BLOCK'',
            policies = [''Offers follow the salary bands'', ''Hiring freeze in force'']\<rparr>,
       (example_world [salary_band_policy, laptop_policy, hiring_freeze_policy])
        \<lparr>client := True,
         calls := [LegalityCall ''OfferMade'' ''OfferAccepted'' ''HR_EXECUTIVE'',
                   PolicyCall ''Hiring'' ''HR_EXECUTIVE'']\<rparr>)"
    by (simp add: run_defs example_defs)
  show ?thesis
    using policy_block_blocked_by_policy
      [where legality = check_process_legality, OF legal _ pol]
    by simp
qed

text \<open>
  C3. When the legality result is valid, the policy severity is not BLOCK, and the severity
  is REQUIRE_APPROVAL or the legality result asks for approval, the approval resolver is
  called with domain \<^verbatim>\<open>"HR"\<close>, the workflow, the next state as the action and the role
  (the third call recorded, after the legality and the policy call), and the verdict is
  NEEDS_APPROVAL with the policy texts as reason, the resolver's result as approval and
  authority \<^verbatim>\<open>"GovernanceLayer"\<close>.
\<close>

theorem approval_needed:
  assumes "legality current_state next_state role = Inr process"
    and "valid process"
    and "check_policy_constraints workflow role
           (record_call (LegalityCall current_state next_state role) w) = (Inr policy, w2)"
    and "severity policy \<noteq> ''BLOCK''"
    and "severity policy = ''REQUIRE_APPROVAL'' \<or> process_legality.approval_required process"
    and "get_approval_requirement ''HR'' workflow next_state role w2 = (Inr requirement, w3)"
  shows "governance_decision legality current_state next_state role workflow w =
           (Inr \<lparr>verdict = ''NEEDS_APPROVAL'',
                 reason = StrList (policies policy),
                 approval = Some requirement,
                 authority = ''GovernanceLayer''\<rparr>, w3)
         \<and> calls w3 = calls w @ [LegalityCall current_state next_state role,
                                  PolicyCall workflow role,
                                  ApprovalCall ''HR'' workflow next_state role]"
proof
  show "governance_decision legality current_state next_state role workflow w =
           (Inr \<lparr>verdict = ''NEEDS_APPROVAL'',
                 reason = StrList (policies policy),
                 approval = Some requirement,
                 authority = ''GovernanceLayer''\<rparr>, w3)"
    using assms by (auto simp: governance_decision_def call_process_legality_def)
  have "calls w2 = calls w @ [LegalityCall current_state next_state role, PolicyCall workflow role]"
    using check_policy_constraints_calls_eq [OF assms(3)] by (simp add: record_call_calls)
  then show "calls w3 = calls w @ [LegalityCall current_state next_state role,
                                  PolicyCall workflow role,
                                  ApprovalCall ''HR'' workflow next_state role]"
    using get_approval_requirement_calls_eq [OF assms(6)] by simp
qed

theorem approval_needed_witness:
  "governance_decision check_process_legality
     ''OfferMade'' ''OfferAccepted'' ''HR_EXECUTIVE'' ''Hiring''
     (example_world [salary_band_policy, offer_signoff_policy, laptop_policy])
   = (Inr \<lparr>verdict = ''NEEDS_APPROVAL'',
           reason = StrList [''Offers follow the salary bands'', ''Offers need a manager sign-off''],
           approval = Some \<lparr>approval_required = True,
                             approver_roles = Some [''HR_MANAGER''],
                             approval_level = Some 1,
                             auto_approve = False,
                             escalation_role = Some ''HR_DIRECTOR''\<rparr>,
           authority = ''GovernanceLayer''\<rparr>,
      (example_world [salary_band_policy, offer_signoff_policy, laptop_policy])
        \<lparr>client := True,
         calls := [LegalityCall ''OfferMade'' ''OfferAccepted'' ''HR_EXECUTIVE'',
                   PolicyCall ''Hiring'' ''HR_EXECUTIVE'',
                   ApprovalCall ''HR'' ''Hiring'' ''OfferAccepted'' ''HR_EXECUTIVE'']\<rparr>)"
  (is "_ = (_, ?w3)")
proof -
  let ?w = "example_world [salary_band_policy, offer_signoff_policy, laptop_policy]"
  let ?w2 = "?w\<lparr>client := True,
         calls := [LegalityCall ''OfferMade'' ''OfferAccepted'' ''HR_EXECUTIVE'',
                   PolicyCall ''Hiring'' ''HR_EXECUTIVE'']\<rparr>"
  have legal: "check_process_legality ''OfferMade'' ''OfferAccepted'' ''HR_EXECUTIVE'' =
      Inr \<lparr>valid = True, process_legality.approval_required = False,
           process_legality.reason = ''Valid HR workflow transition''\<rparr>"
    by (simp add: check_process_legality_def)
  have pol: "check_policy_constraints ''Hiring'' ''HR_EXECUTIVE''
      (record_call (LegalityCall ''OfferMade'' ''OfferAccepted'' ''HR_EXECUTIVE'') ?w) =
      (Inr \<lparr>severity = ''REQUIRE_APPROVAL'',
            policies = [''Offers follow the salary bands'', ''Offers need a manager sign-off'']\<rparr>,
       ?w2)"
    by (simp add: run_defs example_defs)
  have app: "get_approval_requirement ''HR'' ''Hiring'' ''OfferAccepted'' ''HR_EXECUTIVE'' ?w2 =
      (Inr \<lparr>approval_required = True,
                             approver_roles = Some [''HR_MANAGER''],
                             approval_level = Some 1,
                             auto_approve = False,
                             escalation_role = Some ''HR_DIRECTOR''\<rparr>, ?w3)"
    by (simp add: run_defs example_defs)
  show ?thesis
    using approval_needed [where legality = check_process_legality, OF legal _ pol _ _ app]
    by simp
qed

text \<open>
  C4. When the legality result is valid and asks for no approval, and the policy severity
  is ALLOW, the verdict is ALLOWED with reason \<^verbatim>\<open>"Process and policy compliant"\<close> and
  authority \<^verbatim>\<open>"GovernanceLayer"\<close>.
\<close>

theorem compliant_transition_allowed:
  assumes "legality current_state next_state role = Inr process"
    and "valid process"
    and "\<not> process_legality.approval_required process"
    and "check_policy_constraints workflow role
           (record_call (LegalityCall current_state next_state role) w) = (Inr policy, w2)"
    and "severity policy = ''ALLOW''"
  shows "governance_decision legality current_state next_state role workflow w =
           (Inr \<lparr>verdict = ''ALLOWED'',
                 reason = Str ''Process and policy compliant'',
                 approval = None,
                 authority = ''GovernanceLayer''\<rparr>, w2)"
  using assms by (simp add: governance_decision_def call_process_legality_def)

theorem compliant_transition_allowed_witness:
  "governance_decision check_process_legality
     ''OfferMade'' ''OfferAccepted'' ''HR_EXECUTIVE'' ''Hiring''
     (example_world [salary_band_policy, laptop_policy])
   = (Inr \<lparr>verdict = ''ALLOWED'',
           reason = Str ''Process and policy compliant'',
           approval = None,
           authority = ''GovernanceLayer''\<rparr>,
      (example_world [salary_band_policy, laptop_policy])
        \<lparr>client := True,
         calls := [LegalityCall ''OfferMade'' ''OfferAccepted'' ''HR_EXECUTIVE'',
                   PolicyCall ''Hiring'' ''HR_EXECUTIVE'']\<rparr>)"
  (is "_ = (_, ?w2)")
proof -
  let ?w = "example_world [salary_band_policy, laptop_policy]"
  have legal: "check_process_legality ''OfferMade'' ''OfferAccepted'' ''HR_EXECUTIVE'' =
      Inr \<lparr>valid = True, process_legality.approval_required = False,
           process_legality.reason = ''Valid HR workflow transition''\<rparr>"
    by (simp add: check_process_legality_def)
  have pol: "check_policy_constraints ''Hiring'' ''HR_EXECUTIVE''
      (record_call (LegalityCall ''OfferMade'' ''OfferAccepted'' ''HR_EXECUTIVE'') ?w) =
      (Inr \<lparr>severity = ''ALLOW'', policies = [''Offers follow the salary bands'']\<rparr>, ?w2)"
    by (simp add: run_defs example_defs)
  show ?thesis
    using compliant_transition_allowed
      [where legality = check_process_legality, OF legal _ _ pol]
    by simp
qed

subsection \<open>The two evaluators\<close>

text \<open>
  C5. Whatever list of matched records the store returns to \<^verbatim>\<open>check_policy_constraints\<close>,
  the severity returned is BLOCK if a matched record has severity BLOCK, else
  REQUIRE_APPROVAL if one has REQUIRE_APPROVAL, else ALLOW; the policies returned are the
  policy texts of all matched records in the store's order; and no matched record gives
  ALLOW with an empty list. The first hypothesis says that the store can be reached.
\<close>

theorem policy_severity_reduction:
  assumes "client w \<or> connect_to_local (store w) = None"
    and "fetch_objects (HRPolicy (store w)) (hr_policy_filters workflow role) = Inr matched"
  shows "fst (check_policy_constraints workflow role w) =
           Inr \<lparr>severity =
                  (if ''BLOCK'' \<in> hp_severity ` set matched then ''BLOCK''
                   else if ''REQUIRE_APPROVAL'' \<in> hp_severity ` set matched
                     then ''REQUIRE_APPROVAL''
                   else ''ALLOW''),
                policies = map hp_policy_text matched\<rparr>
         \<and> (matched = [] \<longrightarrow>
              fst (check_policy_constraints workflow role w) =
                Inr \<lparr>severity = ''ALLOW'', policies = []\<rparr>)"
proof -
  let ?w0 = "record_call (PolicyCall workflow role) w"
  obtain w1 where gc: "get_client ?w0 = (Inr (), w1)"
    using get_client_connects [of ?w0] assms(1)
    by (cases "get_client ?w0") (simp add: record_call_client record_call_store)
  have "store w1 = store w"
    using get_client_store [of ?w0] gc by (simp add: record_call_store)
  then have "check_policy_constraints workflow role w = (Inr (reduce_objects matched), w1)"
    using gc assms(2) by (simp add: check_policy_constraints_def)
  then show ?thesis
    by (simp add: reduce_objects_eq)
qed

theorem policy_severity_reduction_witness:
  "fst (check_policy_constraints ''Hiring'' ''HR_EXECUTIVE''
          (example_world [salary_band_policy, hiring_freeze_policy, laptop_policy,
                          offer_signoff_policy])) =
     Inr \<lparr>severity = ''BLOCK'',
          policies = [''Offers follow the salary bands'', ''Hiring freeze in force'',
                      ''Offers need a manager sign-off'']\<rparr>
   \<and> fst (check_policy_constraints ''Hiring'' ''HR_EXECUTIVE''
          (example_world [salary_band_policy, offer_signoff_policy, laptop_policy])) =
     Inr \<lparr>severity = ''REQUIRE_APPROVAL'',
          policies = [''Offers follow the salary bands'', ''Offers need a manager sign-off'']\<rparr>
   \<and> fst (check_policy_constraints ''Hiring'' ''HR_EXECUTIVE''
          (example_world [laptop_policy])) =
     Inr \<lparr>severity = ''ALLOW'', policies = []\<rparr>"
  using
    policy_severity_reduction
      [of "example_world [salary_band_policy, hiring_freeze_policy, laptop_policy,
                          offer_signoff_policy]"
          "''Hiring''" "''HR_EXECUTIVE''"
          "[salary_band_policy, hiring_freeze_policy, offer_signoff_policy]"]
    policy_severity_reduction
      [of "example_world [salary_band_policy, offer_signoff_policy, laptop_policy]"
          "''Hiring''" "''HR_EXECUTIVE''"
          "[salary_band_policy, offer_signoff_policy]"]
    policy_severity_reduction
      [of "example_world [laptop_policy]" "''Hiring''" "''HR_EXECUTIVE''" "[]"]
  by (simp add: example_defs fetch_objects_def hr_policy_filters_def contains_any_def)

text \<open>
  C6. \<^verbatim>\<open>get_approval_requirement\<close> answers from the first record of the collection, in
  the store's order, whose domain, workflow, action and requesting role all equal the
  arguments: its approver roles, approval level, auto-approve flag and escalation role
  unchanged, with \<open>approval_required\<close> true. When no record is equal on all four, the
  answer has the two keys \<open>approval_required\<close> false and \<open>auto_approve\<close> true only.
\<close>

theorem approval_requirement_first_exact_match:
  assumes "client w \<or> connect_to_local (store w) = None"
    and "ApprovalPolicy (store w) = Inr objs"
  shows "fst (get_approval_requirement domain workflow action role w) =
           Inr (case List.find
                       (\<lambda>obj. ap_domain obj = domain \<and> ap_workflow obj = workflow
                              \<and> ap_action obj = action \<and> ap_requested_by_role obj = role)
                       objs of
                  None \<Rightarrow>
                    \<lparr>approval_required = False, approver_roles = None,
                     approval_level = None, auto_approve = True,
                     escalation_role = None\<rparr>
                | Some policy \<Rightarrow>
                    \<lparr>approval_required = True,
                     approver_roles = Some (ap_approver_roles policy),
                     approval_level = Some (ap_approval_level policy),
                     auto_approve = ap_auto_approve policy,
                     escalation_role = Some (ap_escalation_role policy)\<rparr>)"
proof -
  let ?w0 = "record_call (ApprovalCall domain workflow action role) w"
  let ?P = "\<lambda>obj. ap_domain obj = domain \<and> ap_workflow obj = workflow
                              \<and> ap_action obj = action \<and> ap_requested_by_role obj = role"
  obtain w1 where gc: "get_client ?w0 = (Inr (), w1)"
    using get_client_connects [of ?w0] assms(1)
    by (cases "get_client ?w0") (simp add: record_call_client record_call_store)
  have st: "store w1 = store w"
    using get_client_store [of ?w0] gc by (simp add: record_call_store)
  have P: "approval_policy_filters domain workflow action role = ?P"
    by (rule ext) (simp add: approval_policy_filters_def)
  show ?thesis
    using gc st assms(2)
    by (simp add: get_approval_requirement_def fetch_objects_def P find_filter_eq
        split: list.splits)
qed

theorem approval_requirement_first_exact_match_witness:
  "fst (get_approval_requirement ''HR'' ''Hiring'' ''OfferAccepted'' ''HR_EXECUTIVE''
          \<lparr>client = True,
           store = \<lparr>connect_to_local = None, HRPolicy = Inr [],
                    ApprovalPolicy = Inr
                      [hiring_approval_policy\<lparr>ap_action := ''OfferAccepted by candidate''\<rparr>,
                       hiring_approval_policy,
                       hiring_approval_policy\<lparr>ap_approver_roles := [''CEO''],
                                              ap_approval_level := 3\<rparr>]\<rparr>,
           calls = []\<rparr>) =
     Inr \<lparr>approval_required = True, approver_roles = Some [''HR_MANAGER''],
          approval_level = Some 1, auto_approve = False,
          escalation_role = Some ''HR_DIRECTOR''\<rparr>
   \<and> fst (get_approval_requirement ''HR'' ''Hiring'' ''OfferAccepted'' ''HR_MANAGER''
          (example_world [])) =
     Inr \<lparr>approval_required = False, approver_roles = None,
          approval_level = None, auto_approve = True, escalation_role = None\<rparr>"
  using
    approval_requirement_first_exact_match
      [of "\<lparr>client = True,
           store = \<lparr>connect_to_local = None, HRPolicy = Inr [],
                    ApprovalPolicy = Inr
                      [hiring_approval_policy\<lparr>ap_action := ''OfferAccepted by candidate''\<rparr>,
                       hiring_approval_policy,
                       hiring_approval_policy\<lparr>ap_approver_roles := [''CEO''],
                                              ap_approval_level := 3\<rparr>]\<rparr>,
           calls = []\<rparr>"
          "[hiring_approval_policy\<lparr>ap_action := ''OfferAccepted by candidate''\<rparr>,
                       hiring_approval_policy,
                       hiring_approval_policy\<lparr>ap_approver_roles := [''CEO''],
                                              ap_approval_level := 3\<rparr>]"
          "''HR''" "''Hiring''" "''OfferAccepted''" "''HR_EXECUTIVE''"]
    approval_requirement_first_exact_match
      [of "example_world []" "[hiring_approval_policy]"
          "''HR''" "''Hiring''" "''OfferAccepted''" "''HR_MANAGER''"]
  by (simp add: example_defs)

subsection \<open>Reasons\<close>

text \<open>
  C7. A BLOCKED verdict has a non-empty reason, provided the legality collaborator keeps
  its invariant (an invalid result has a non-empty reason). The second invariant the claim
  names, that an empty list of policies comes with severity ALLOW, is a property of
  \<^verbatim>\<open>check_policy_constraints\<close> itself and is proved above, not assumed.
\<close>

theorem blocked_verdict_has_reason:
  assumes "\<And>process. legality current_state next_state role = Inr process \<Longrightarrow>
             process_legality_invariant process"
    and "governance_decision legality current_state next_state role workflow w = (Inr v, w')"
    and "verdict v = ''BLOCKED''"
  shows "nonempty (reason v)"
proof (cases "legality current_state next_state role")
  case (Inl e)
  then show ?thesis
    using assms(2) by (simp add: governance_decision_def call_process_legality_def)
next
  case (Inr process)
  note legal = Inr
  show ?thesis
  proof (cases "valid process")
    case False
    then have "process_legality.reason process \<noteq> []"
      using assms(1) [OF legal] by (simp add: process_legality_invariant_def)
    then show ?thesis
      using assms(2) legal False
      by (auto simp: governance_decision_def call_process_legality_def)
  next
    case True
    let ?w1 = "record_call (LegalityCall current_state next_state role) w"
    obtain r w2 where pol: "check_policy_constraints workflow role ?w1 = (r, w2)"
      by (cases "check_policy_constraints workflow role ?w1")
    show ?thesis
    proof (cases r)
      case (Inl e)
      then show ?thesis
        using assms(2) legal True pol
        by (simp add: governance_decision_def call_process_legality_def)
    next
      case (Inr policy)
      have "policies policy \<noteq> []" if "severity policy = ''BLOCK''"
        using check_policy_constraints_invariant [of workflow role ?w1 policy w2] pol Inr that
        by auto
      then show ?thesis
        using assms(2,3) legal True pol Inr
        by (auto simp: governance_decision_def call_process_legality_def
            split: if_splits prod.splits sum.splits)
    qed
  qed
qed

theorem blocked_verdict_has_reason_witness:
  "process_legality_invariant
     \<lparr>valid = False, process_legality.approval_required = False,
      process_legality.reason = ''No such transition''\<rparr>
   \<and> fst (governance_decision
        (constant_legality
           \<lparr>valid = False, process_legality.approval_required = False,
            process_legality.reason = ''No such transition''\<rparr>)
        ''Rejected'' ''OfferAccepted'' ''HR_EXECUTIVE'' ''Hiring'' (example_world [])) =
      Inr \<lparr>verdict = ''BLOCKED'', reason = Str ''No such transition'',
           approval = None, authority = ''NebulaGraph''\<rparr>
   \<and> nonempty (Str ''No such transition'')
   \<and> fst (governance_decision check_process_legality
        ''OfferMade'' ''OfferAccepted'' ''HR_EXECUTIVE'' ''Hiring''
        (example_world [hiring_freeze_policy])) =
      Inr \<lparr>verdict = ''BLOCKED'', reason = StrList [''Hiring freeze in force''],
           approval = None, authority = ''Weaviate''\<rparr>
   \<and> nonempty (StrList [''Hiring freeze in force''])"
proof -
  let ?p = "\<lparr>valid = False, process_legality.approval_required = False,
            process_legality.reason = ''No such transition''\<rparr>"
  let ?v1 = "\<lparr>verdict = ''BLOCKED'', reason = Str ''No such transition'',
           approval = None, authority = ''NebulaGraph''\<rparr>"
  let ?v2 = "\<lparr>verdict = ''BLOCKED'', reason = StrList [''Hiring freeze in force''],
           approval = None, authority = ''Weaviate''\<rparr>"
  let ?run1 = "governance_decision (constant_legality ?p)
        ''Rejected'' ''OfferAccepted'' ''HR_EXECUTIVE'' ''Hiring'' (example_world [])"
  let ?run2 = "governance_decision check_process_legality
        ''OfferMade'' ''OfferAccepted'' ''HR_EXECUTIVE'' ''Hiring''
        (example_world [hiring_freeze_policy])"
  have inv: "process_legality_invariant ?p"
    by (simp add: process_legality_invariant_def)
  have fst1: "fst ?run1 = Inr ?v1"
    by (simp add: governance_decision_def call_process_legality_def run_defs example_defs)
  then have run1: "?run1 = (Inr ?v1, snd ?run1)"
    by (simp add: prod_eq_iff)
  have fst2: "fst ?run2 = Inr ?v2"
    by (simp add: governance_decision_def call_process_legality_def run_defs example_defs)
  then have run2: "?run2 = (Inr ?v2, snd ?run2)"
    by (simp add: prod_eq_iff)
  have "nonempty (reason ?v1)"
  proof (rule blocked_verdict_has_reason [where legality = "constant_legality ?p", OF _ run1])
    fix process
    assume "constant_legality ?p ''Rejected'' ''OfferAccepted'' ''HR_EXECUTIVE'' = Inr process"
    then show "process_legality_invariant process"
      using inv by (auto simp: constant_legality_def)
  next
    show "verdict ?v1 = ''BLOCKED''" by simp
  qed
  moreover have "nonempty (reason ?v2)"
  proof (rule blocked_verdict_has_reason [where legality = check_process_legality, OF _ run2])
    fix process
    assume "check_process_legality ''OfferMade'' ''OfferAccepted'' ''HR_EXECUTIVE'' = Inr process"
    then show "process_legality_invariant process"
      by (auto simp: check_process_legality_def process_legality_invariant_def)
  next
    show "verdict ?v2 = ''BLOCKED''" by simp
  qed
  ultimately show ?thesis
    using inv fst1 fst2 by simp
qed

subsection \<open>What an evaluation depends on, and what it leaves\<close>

text \<open>
  Each function is rewritten as a function of \<open>connection_failure\<close> and \<open>store\<close>; every
  function leaves both as they were, and its result depends on nothing else of the state.
\<close>

lemma get_client_eq:
  "get_client w =
     (case connection_failure w of
        Some e \<Rightarrow> (Inl e, w)
      | None \<Rightarrow> (Inr (), w\<lparr>client := True\<rparr>))"
  by (simp add: get_client_def connection_failure_def split: option.splits)

lemma connection_failure_record_call [simp]:
  "connection_failure (record_call c w) = connection_failure w"
  by (simp add: connection_failure_def record_call_def)

lemma connection_failure_connected [simp]:
  "connection_failure (w\<lparr>client := True\<rparr>) = None"
  by (simp add: connection_failure_def)

lemma check_policy_constraints_eq:
  "check_policy_constraints workflow role w =
     (case connection_failure w of
        Some e \<Rightarrow> (Inl e, record_call (PolicyCall workflow role) w)
      | None \<Rightarrow>
          (case fetch_objects (HRPolicy (store w)) (hr_policy_filters workflow role) of
             Inl e \<Rightarrow> Inl e
           | Inr objects \<Rightarrow> Inr (reduce_objects objects),
           (record_call (PolicyCall workflow role) w)\<lparr>client := True\<rparr>))"
  by (simp add: check_policy_constraints_def get_client_eq record_call_store
      split: option.splits sum.splits)

lemma get_approval_requirement_eq:
  "get_approval_requirement domain workflow action role w =
     (case connection_failure w of
        Some e \<Rightarrow> (Inl e, record_call (ApprovalCall domain workflow action role) w)
      | None \<Rightarrow>
          (fst (get_approval_requirement domain workflow action role w),
           (record_call (ApprovalCall domain workflow action role) w)\<lparr>client := True\<rparr>))"
  by (simp add: get_approval_requirement_def get_client_eq record_call_store
      split: option.splits sum.splits list.splits)

lemma check_policy_constraints_depends:
  assumes "connection_failure w' = connection_failure w" and "store w' = store w"
  shows "fst (check_policy_constraints workflow role w') =
         fst (check_policy_constraints workflow role w)"
  using assms by (simp add: check_policy_constraints_eq split: option.splits)

lemma check_policy_constraints_preserves:
  "connection_failure (snd (check_policy_constraints workflow role w)) = connection_failure w
   \<and> store (snd (check_policy_constraints workflow role w)) = store w"
  by (simp add: check_policy_constraints_eq record_call_store split: option.splits)

lemma get_approval_requirement_depends:
  assumes "connection_failure w' = connection_failure w" and "store w' = store w"
  shows "fst (get_approval_requirement domain workflow action role w') =
         fst (get_approval_requirement domain workflow action role w)"
  using assms
  by (simp add: get_approval_requirement_def get_client_eq record_call_store
      split: option.splits sum.splits list.splits)

lemma get_approval_requirement_preserves:
  "connection_failure (snd (get_approval_requirement domain workflow action role w)) =
     connection_failure w
   \<and> store (snd (get_approval_requirement domain workflow action role w)) = store w"
  by (simp add: get_approval_requirement_def get_client_eq record_call_store
      split: option.splits sum.splits list.splits)

lemma governance_decision_steps:
  "governance_decision legality current_state next_state role workflow w =
     (let w1 = record_call (LegalityCall current_state next_state role) w in
      case legality current_state next_state role of
        Inl e \<Rightarrow> (Inl e, w1)
      | Inr process \<Rightarrow>
          if \<not> valid process then
            (Inr \<lparr>verdict = ''BLOCKED'',
                  reason = Str (process_legality.reason process),
                  approval = None,
                  authority = ''NebulaGraph''\<rparr>, w1)
          else
            (let pr = check_policy_constraints workflow role w1; w2 = snd pr in
             case fst pr of
               Inl e \<Rightarrow> (Inl e, w2)
             | Inr policy \<Rightarrow>
                 if severity policy = ''BLOCK'' then
                   (Inr \<lparr>verdict = ''BLOCKED'',
                         reason = StrList (policies policy),
                         approval = None,
                         authority = ''Weaviate''\<rparr>, w2)
                 else if severity policy = ''REQUIRE_APPROVAL''
                         \<or> process_legality.approval_required process then
                   (let ar = get_approval_requirement ''HR'' workflow next_state role w2;
                        w3 = snd ar in
                    case fst ar of
                      Inl e \<Rightarrow> (Inl e, w3)
                    | Inr requirement \<Rightarrow>
                        (Inr \<lparr>verdict = ''NEEDS_APPROVAL'',
                              reason = StrList (policies policy),
                              approval = Some requirement,
                              authority = ''GovernanceLayer''\<rparr>, w3))
                 else
                   (Inr \<lparr>verdict = ''ALLOWED'',
                         reason = Str ''Process and policy compliant'',
                         approval = None,
                         authority = ''GovernanceLayer''\<rparr>, w2)))"
  by (simp add: governance_decision_def call_process_legality_def Let_def
      split: prod.splits sum.splits)

lemma governance_decision_preserves:
  "connection_failure (snd (governance_decision legality current_state next_state role workflow w))
     = connection_failure w
   \<and> store (snd (governance_decision legality current_state next_state role workflow w)) = store w"
  using check_policy_constraints_preserves
          [of workflow role "record_call (LegalityCall current_state next_state role) w"]
        get_approval_requirement_preserves
          [of "''HR''" workflow next_state role
              "snd (check_policy_constraints workflow role
                      (record_call (LegalityCall current_state next_state role) w))"]
  by (simp add: governance_decision_steps Let_def record_call_store split: sum.splits)

lemma governance_decision_depends:
  assumes "connection_failure w' = connection_failure w" and "store w' = store w"
  shows "fst (governance_decision legality current_state next_state role workflow w') =
         fst (governance_decision legality current_state next_state role workflow w)"
proof -
  let ?c = "LegalityCall current_state next_state role"
  let ?p = "check_policy_constraints workflow role (record_call ?c w)"
  let ?p' = "check_policy_constraints workflow role (record_call ?c w')"
  have 1: "connection_failure (record_call ?c w') = connection_failure (record_call ?c w)"
    and 2: "store (record_call ?c w') = store (record_call ?c w)"
    using assms by (simp_all add: record_call_store)
  have p: "fst ?p' = fst ?p"
    by (rule check_policy_constraints_depends [OF 1 2])
  have 3: "connection_failure (snd ?p') = connection_failure (snd ?p)"
    and 4: "store (snd ?p') = store (snd ?p)"
    using check_policy_constraints_preserves [of workflow role "record_call ?c w"]
          check_policy_constraints_preserves [of workflow role "record_call ?c w'"] 1 2
    by simp_all
  have a: "fst (get_approval_requirement ''HR'' workflow next_state role (snd ?p')) =
           fst (get_approval_requirement ''HR'' workflow next_state role (snd ?p))"
    by (rule get_approval_requirement_depends [OF 3 4])
  show ?thesis
    by (simp add: governance_decision_steps Let_def p a split: sum.splits)
qed

text \<open>
  C9. Two consecutive evaluations with the same arguments and the same legality
  collaborator return the same result: the second runs in the state the first left, which
  differs from the initial state in the cached connection and in the recorded calls only,
  and the result depends on neither. The result compared is the verdict or the propagated
  failure.
\<close>

theorem governance_decision_repeatable:
  "fst (governance_decision legality current_state next_state role workflow
          (snd (governance_decision legality current_state next_state role workflow w))) =
   fst (governance_decision legality current_state next_state role workflow w)"
  using governance_decision_preserves [of legality current_state next_state role workflow w]
  by (intro governance_decision_depends) simp_all

theorem governance_decision_repeatable_witness:
  "fst (governance_decision check_process_legality
          ''OfferMade'' ''OfferAccepted'' ''HR_EXECUTIVE'' ''Hiring''
          (snd (governance_decision check_process_legality
                  ''OfferMade'' ''OfferAccepted'' ''HR_EXECUTIVE'' ''Hiring''
                  (example_world [salary_band_policy, hiring_freeze_policy])))) =
   Inr \<lparr>verdict = ''BLOCKED'',
        reason = StrList [''Offers follow the salary bands'', ''Hiring freeze in force''],
        approval = None, authority = ''Weaviate''\<rparr>"
proof -
  have "fst (governance_decision check_process_legality
          ''OfferMade'' ''OfferAccepted'' ''HR_EXECUTIVE'' ''Hiring''
          (example_world [salary_band_policy, hiring_freeze_policy])) =
        Inr \<lparr>verdict = ''BLOCKED'',
             reason = StrList [''Offers follow the salary bands'', ''Hiring freeze in force''],
             approval = None, authority = ''Weaviate''\<rparr>"
    by (simp add: governance_decision_def call_process_legality_def run_defs example_defs)
  then show ?thesis
    using governance_decision_repeatable
      [of check_process_legality "''OfferMade''" "''OfferAccepted''" "''HR_EXECUTIVE''"
          "''Hiring''" "example_world [salary_band_policy, hiring_freeze_policy]"]
    by simp
qed

subsection \<open>Failures of the collaborators\<close>

text \<open>
  C8. The resolver has no handler: a failure of a collaborator call it makes is its own
  result, unchanged, and so is never a verdict. The three conjuncts are the three calls:
  the legality collaborator fails; the legality result is valid and the policy evaluator
  fails; the approval branch is taken and the approval resolver fails.
\<close>

theorem collaborator_failure_propagates:
  "(legality current_state next_state role = Inl e \<longrightarrow>
      governance_decision legality current_state next_state role workflow w =
        (Inl e, record_call (LegalityCall current_state next_state role) w))
   \<and> (legality current_state next_state role = Inr process \<and> valid process
        \<and> check_policy_constraints workflow role
             (record_call (LegalityCall current_state next_state role) w) = (Inl e, w2) \<longrightarrow>
      governance_decision legality current_state next_state role workflow w = (Inl e, w2))
   \<and> (legality current_state next_state role = Inr process \<and> valid process
        \<and> check_policy_constraints workflow role
             (record_call (LegalityCall current_state next_state role) w) = (Inr policy, w2)
        \<and> severity policy \<noteq> ''BLOCK''
        \<and> (severity policy = ''REQUIRE_APPROVAL''
             \<or> process_legality.approval_required process)
        \<and> get_approval_requirement ''HR'' workflow next_state role w2 = (Inl e, w3) \<longrightarrow>
      governance_decision legality current_state next_state role workflow w = (Inl e, w3))"
  by (auto simp: governance_decision_def call_process_legality_def)

theorem collaborator_failure_propagates_witness:
  "fst (governance_decision (\<lambda>current_state next_state role.
            Inl (ProcessLegalityError ''graph unreachable''))
          ''OfferMade'' ''OfferAccepted'' ''HR_EXECUTIVE'' ''Hiring''
          (example_world [hiring_freeze_policy])) =
     Inl (ProcessLegalityError ''graph unreachable'')
   \<and> fst (governance_decision check_process_legality
          ''OfferMade'' ''OfferAccepted'' ''HR_EXECUTIVE'' ''Hiring''
          \<lparr>client = False,
           store = \<lparr>connect_to_local = None,
                    HRPolicy = Inl (WeaviateQueryError ''StoreUnavailable''),
                    ApprovalPolicy = Inr [hiring_approval_policy]\<rparr>,
           calls = []\<rparr>) =
     Inl (WeaviateQueryError ''StoreUnavailable'')
   \<and> fst (governance_decision check_process_legality
          ''OfferMade'' ''OfferAccepted'' ''HR_EXECUTIVE'' ''Hiring''
          \<lparr>client = True,
           store = \<lparr>connect_to_local = None,
                    HRPolicy = Inr [offer_signoff_policy],
                    ApprovalPolicy = Inl (WeaviateQueryError ''StoreUnavailable'')\<rparr>,
           calls = []\<rparr>) =
     Inl (WeaviateQueryError ''StoreUnavailable'')"
proof -
  let ?down = "WeaviateQueryError ''StoreUnavailable''"
  let ?wa = "\<lparr>client = False,
           store = \<lparr>connect_to_local = None,
                    HRPolicy = Inl ?down,
                    ApprovalPolicy = Inr [hiring_approval_policy]\<rparr>,
           calls = []\<rparr>"
  let ?wb = "\<lparr>client = True,
           store = \<lparr>connect_to_local = None,
                    HRPolicy = Inr [offer_signoff_policy],
                    ApprovalPolicy = Inl ?down\<rparr>,
           calls = []\<rparr>"
  let ?c = "LegalityCall ''OfferMade'' ''OfferAccepted'' ''HR_EXECUTIVE''"
  let ?ok = "\<lparr>valid = True, process_legality.approval_required = False,
            process_legality.reason = ''Valid HR workflow transition''\<rparr>"
  let ?pol = "\<lparr>severity = ''REQUIRE_APPROVAL'', policies = [''Offers need a manager sign-off'']\<rparr>"
  have legal: "check_process_legality ''OfferMade'' ''OfferAccepted'' ''HR_EXECUTIVE'' = Inr ?ok"
    by (simp add: check_process_legality_def)
  have first: "fst (governance_decision (\<lambda>current_state next_state role.
            Inl (ProcessLegalityError ''graph unreachable''))
          ''OfferMade'' ''OfferAccepted'' ''HR_EXECUTIVE'' ''Hiring''
          (example_world [hiring_freeze_policy])) =
     Inl (ProcessLegalityError ''graph unreachable'')"
    using collaborator_failure_propagates
      [of "\<lambda>current_state next_state role. Inl (ProcessLegalityError ''graph unreachable'')"
          "''OfferMade''" "''OfferAccepted''" "''HR_EXECUTIVE''"
          "ProcessLegalityError ''graph unreachable''"
          "''Hiring''" "example_world [hiring_freeze_policy]"]
    by simp
  have pa: "check_policy_constraints ''Hiring'' ''HR_EXECUTIVE'' (record_call ?c ?wa) =
      (Inl ?down, (record_call (PolicyCall ''Hiring'' ''HR_EXECUTIVE'') (record_call ?c ?wa))
                    \<lparr>client := True\<rparr>)"
    by (simp add: run_defs)
  have second: "fst (governance_decision check_process_legality
          ''OfferMade'' ''OfferAccepted'' ''HR_EXECUTIVE'' ''Hiring'' ?wa) = Inl ?down"
    using collaborator_failure_propagates
      [where legality = check_process_legality and current_state = "''OfferMade''"
         and next_state = "''OfferAccepted''" and role = "''HR_EXECUTIVE''"
         and workflow = "''Hiring''" and w = ?wa and e = ?down and process = ?ok
         and ?w2.0 = "(record_call (PolicyCall ''Hiring'' ''HR_EXECUTIVE'') (record_call ?c ?wa))
                    \<lparr>client := True\<rparr>"]
      legal pa
    by simp
  have pb: "check_policy_constraints ''Hiring'' ''HR_EXECUTIVE'' (record_call ?c ?wb) =
      (Inr ?pol, (record_call (PolicyCall ''Hiring'' ''HR_EXECUTIVE'') (record_call ?c ?wb)))"
    by (simp add: run_defs example_defs)
  have ab: "get_approval_requirement ''HR'' ''Hiring'' ''OfferAccepted'' ''HR_EXECUTIVE''
        (record_call (PolicyCall ''Hiring'' ''HR_EXECUTIVE'') (record_call ?c ?wb)) =
      (Inl ?down,
       record_call (ApprovalCall ''HR'' ''Hiring'' ''OfferAccepted'' ''HR_EXECUTIVE'')
         (record_call (PolicyCall ''Hiring'' ''HR_EXECUTIVE'') (record_call ?c ?wb)))"
    by (simp add: run_defs)
  have third: "fst (governance_decision check_process_legality
          ''OfferMade'' ''OfferAccepted'' ''HR_EXECUTIVE'' ''Hiring'' ?wb) = Inl ?down"
    using collaborator_failure_propagates
      [where legality = check_process_legality and current_state = "''OfferMade''"
         and next_state = "''OfferAccepted''" and role = "''HR_EXECUTIVE''"
         and workflow = "''Hiring''" and w = ?wb and e = ?down and process = ?ok
         and policy = ?pol
         and ?w2.0 = "record_call (PolicyCall ''Hiring'' ''HR_EXECUTIVE'') (record_call ?c ?wb)"
         and ?w3.0 = "record_call (ApprovalCall ''HR'' ''Hiring'' ''OfferAccepted'' ''HR_EXECUTIVE'')
         (record_call (PolicyCall ''Hiring'' ''HR_EXECUTIVE'') (record_call ?c ?wb))"]
      legal pb ab
    by simp
  show ?thesis
    using first second third by simp
qed

subsection \<open>An approval without a policy\<close>

text \<open>
  C10. When the legality result is valid and asks for approval, the store can be reached
  and no policy record matches, the verdict is NEEDS_APPROVAL and its reason is the empty
  list: unlike a BLOCKED verdict, a NEEDS_APPROVAL verdict may have an empty reason.
\<close>

theorem approval_without_policy_has_empty_reason:
  assumes "legality current_state next_state role = Inr process"
    and "valid process"
    and "process_legality.approval_required process"
    and "connection_failure w = None"
    and "fetch_objects (HRPolicy (store w)) (hr_policy_filters workflow role) = Inr []"
    and "ApprovalPolicy (store w) = Inr rules"
  shows "\<exists>requirement w'.
           governance_decision legality current_state next_state role workflow w =
             (Inr \<lparr>verdict = ''NEEDS_APPROVAL'',
                   reason = StrList [],
                   approval = Some requirement,
                   authority = ''GovernanceLayer''\<rparr>, w')
           \<and> \<not> nonempty (reason \<lparr>verdict = ''NEEDS_APPROVAL'',
                   reason = StrList [],
                   approval = Some requirement,
                   authority = ''GovernanceLayer''\<rparr>)"
proof -
  let ?w1 = "record_call (LegalityCall current_state next_state role) w"
  let ?w2 = "(record_call (PolicyCall workflow role) ?w1)\<lparr>client := True\<rparr>"
  have pol: "check_policy_constraints workflow role ?w1 =
               (Inr \<lparr>severity = ''ALLOW'', policies = []\<rparr>, ?w2)"
    using assms(4,5)
    by (simp add: check_policy_constraints_eq record_call_store reduce_objects_def)
  have "store ?w2 = store w"
    by (simp add: record_call_store)
  then obtain requirement w3 where
    "get_approval_requirement ''HR'' workflow next_state role ?w2 = (Inr requirement, w3)"
    using assms(6)
    by (cases "get_approval_requirement ''HR'' workflow next_state role ?w2")
       (auto simp: get_approval_requirement_def get_client_eq fetch_objects_def
          record_call_store split: list.splits)
  then show ?thesis
    using assms(1,2,3) pol
    by (auto simp: governance_decision_def call_process_legality_def)
qed

theorem approval_without_policy_has_empty_reason_witness:
  "governance_decision
     (constant_legality
        \<lparr>valid = True, process_legality.approval_required = True,
         process_legality.reason = ''Offer acceptance needs approval''\<rparr>)
     ''OfferMade'' ''OfferAccepted'' ''HR_EXECUTIVE'' ''Hiring'' (example_world [laptop_policy])
   = (Inr \<lparr>verdict = ''NEEDS_APPROVAL'',
           reason = StrList [],
           approval = Some \<lparr>approval_required = True,
                             approver_roles = Some [''HR_MANAGER''],
                             approval_level = Some 1,
                             auto_approve = False,
                             escalation_role = Some ''HR_DIRECTOR''\<rparr>,
           authority = ''GovernanceLayer''\<rparr>,
      (example_world [laptop_policy])
        \<lparr>client := True,
         calls := [LegalityCall ''OfferMade'' ''OfferAccepted'' ''HR_EXECUTIVE'',
                   PolicyCall ''Hiring'' ''HR_EXECUTIVE'',
                   ApprovalCall ''HR'' ''Hiring'' ''OfferAccepted'' ''HR_EXECUTIVE'']\<rparr>)
   \<and> \<not> nonempty (StrList [])"
proof -
  let ?p = "\<lparr>valid = True, process_legality.approval_required = True,
         process_legality.reason = ''Offer acceptance needs approval''\<rparr>"
  let ?w = "example_world [laptop_policy]"
  have run: "governance_decision (constant_legality ?p)
     ''OfferMade'' ''OfferAccepted'' ''HR_EXECUTIVE'' ''Hiring'' ?w
   = (Inr \<lparr>verdict = ''NEEDS_APPROVAL'',
           reason = StrList [],
           approval = Some \<lparr>approval_required = True,
                             approver_roles = Some [''HR_MANAGER''],
                             approval_level = Some 1,
                             auto_approve = False,
                             escalation_role = Some ''HR_DIRECTOR''\<rparr>,
           authority = ''GovernanceLayer''\<rparr>,
      ?w\<lparr>client := True,
         calls := [LegalityCall ''OfferMade'' ''OfferAccepted'' ''HR_EXECUTIVE'',
                   PolicyCall ''Hiring'' ''HR_EXECUTIVE'',
                   ApprovalCall ''HR'' ''Hiring'' ''OfferAccepted'' ''HR_EXECUTIVE'']\<rparr>)"
    by (simp add: governance_decision_def call_process_legality_def run_defs example_defs)
  have "\<exists>requirement w'.
           governance_decision (constant_legality ?p)
             ''OfferMade'' ''OfferAccepted'' ''HR_EXECUTIVE'' ''Hiring'' ?w =
             (Inr \<lparr>verdict = ''NEEDS_APPROVAL'',
                   reason = StrList [],
                   approval = Some requirement,
                   authority = ''GovernanceLayer''\<rparr>, w')
           \<and> \<not> nonempty (reason \<lparr>verdict = ''NEEDS_APPROVAL'',
                   reason = StrList [],
                   approval = Some requirement,
                   authority = ''GovernanceLayer''\<rparr>)"
    by (rule approval_without_policy_has_empty_reason
          [where legality = "constant_legality ?p" and process = ?p
             and rules = "[hiring_approval_policy]"])
       (simp_all add: example_defs connection_failure_def fetch_objects_def
          hr_policy_filters_def contains_any_def)
  then show ?thesis
    using run by simp
qed

end
